theory Spec2Isabelle
  imports Main
begin

section \<open>The libvirt client library, as far as the connection wrapper uses it\<close>

text \<open>
  The wrapper in package \<open>libvirt\<close> talks to the daemon through the external package
  \<open>libvirt_go\<close>. Nothing of that package is part of the program under verification, so its
  calls are inputs of the model: a record \<open>Libvirt\<close> holds, for one operation of the wrapper,
  what each external call answers. The program's own functions are translated below and take
  that record as their first argument.
\<close>

text \<open>
  \<open>libvirt_go.ErrorNumber\<close>. The program names eight of the codes; every other code of the
  library is \<open>ERR_OTHER n\<close>.
\<close>

datatype ErrorNumber =
    ERR_OK
  | ERR_INTERNAL_ERROR
  | ERR_NO_MEMORY
  | ERR_INVALID_CONN
  | ERR_SYSTEM_ERROR
  | ERR_RPC
  | ERR_AUTH_FAILED
  | ERR_AUTH_CANCELLED
  | ERR_OTHER nat

text \<open>\<open>libvirt_go.Error\<close>, a struct passed by value: "no error" is the value with code \<open>ERR_OK\<close>.\<close>

record Error =
  Code :: ErrorNumber
  Message :: string

text \<open>
  Go values of interface type \<open>error\<close>: an error of the library, the timeout error of the
  polling helper, and \<open>fmt.Errorf (prefix + "%v", err)\<close>, which keeps the error it formats.
\<close>

datatype GoError =
    LibvirtError Error
  | ErrWaitTimeout
  | Errorf string GoError

text \<open>A session \<open>*libvirt_go.Connect\<close> is a pointer: \<open>None\<close> is \<open>nil\<close>.\<close>

datatype virConnect = VirConnect nat

datatype Domain = Domain nat

datatype Secret = Secret nat

datatype Stream = Stream nat

text \<open>A function value of the named type \<open>libvirt_go.DomainEventLifecycleCallback\<close>.\<close>

datatype DomainEventLifecycleCallback = LifecycleCallback nat

text \<open>
  A value of type \<open>interface{}\<close>, as \<open>RegisterGuestEventLifecycle\<close> receives it: its dynamic
  type is the callback type, or something else, or the interface is \<open>nil\<close>.
\<close>

datatype GoValue =
    CallbackValue DomainEventLifecycleCallback
  | OtherValue string
  | NilValue

datatype ConnectCredentialType = CRED_AUTHNAME | CRED_PASSPHRASE | CRED_OTHER nat

record ConnectCredential =
  CredentialType :: ConnectCredentialType
  Result :: string
  ResultLen :: nat

record ConnectAuth =
  CredType :: "ConnectCredentialType list"
  Callback :: "ConnectCredential list \<Rightarrow> ConnectCredential list"

datatype ConnectListAllDomainsFlags = CONNECT_LIST_DOMAINS_ACTIVE | CONNECT_LIST_DOMAINS_INACTIVE

record Libvirt =
  lv_NewConnectWithAuth :: "string \<Rightarrow> ConnectAuth \<Rightarrow> nat \<Rightarrow> virConnect option \<times> GoError option"
  lv_GetLastError :: Error
  lv_IsAlive :: "virConnect option \<Rightarrow> bool \<times> GoError option"
  lv_NewStream :: "virConnect option \<Rightarrow> nat \<Rightarrow> Stream option \<times> GoError option"
  lv_ListSecrets :: "virConnect option \<Rightarrow> string list option \<times> GoError option"
  lv_LookupSecretByUUIDString :: "virConnect option \<Rightarrow> string \<Rightarrow> Secret option \<times> GoError option"
  lv_LookupSecretByUsage :: "virConnect option \<Rightarrow> nat \<Rightarrow> string \<Rightarrow> Secret option \<times> GoError option"
  lv_ListAllSecrets :: "virConnect option \<Rightarrow> nat \<Rightarrow> Secret list \<times> GoError option"
  lv_SecretDefineXML :: "virConnect option \<Rightarrow> string \<Rightarrow> nat \<Rightarrow> Secret option \<times> GoError option"
  lv_DomainEventLifecycleRegister ::
    "virConnect option \<Rightarrow> Domain option \<Rightarrow> DomainEventLifecycleCallback \<Rightarrow> int \<times> GoError option"
  lv_LookupDomainByName :: "virConnect option \<Rightarrow> string \<Rightarrow> Domain option \<times> GoError option"
  lv_DomainDefineXML :: "virConnect option \<Rightarrow> string \<Rightarrow> Domain option \<times> GoError option"
  lv_ListAllDomains ::
    "virConnect option \<Rightarrow> ConnectListAllDomainsFlags set \<Rightarrow> Domain list \<times> GoError option"


section \<open>The connection handle\<close>

text \<open>A channel of type \<open>chan struct{}\<close> on which nothing is ever sent.\<close>

datatype Chan = NilChan | OpenChan | ClosedChan

text \<open>
  The struct \<open>LibvirtConnection\<close>. \<open>reconnectLock\<close> is the mutex; \<open>True\<close> means it is held.
\<close>

record LibvirtConnection =
  Connect :: "virConnect option"
  user :: string
  pass :: string
  uri :: string
  alive :: bool
  stop :: Chan
  reconnectLock :: bool
  callbacks :: "DomainEventLifecycleCallback list"

text \<open>
  What the program does to the outside is recorded in program order: taking and releasing the
  mutex, calling a registered callback with its three arguments (the session, the domain and
  the event, the last two \<open>nil\<close> on a reconnect), and writing an error record to the log (with
  the \<open>code\<close> field and the reason when the program attaches them).
\<close>

datatype Event =
    EvLock
  | EvUnlock
  | EvInvoke DomainEventLifecycleCallback "virConnect option" "Domain option" "nat option"
  | EvLogError "ErrorNumber option" "Error option" string

record World = LibvirtConnection +
  events :: "Event list"

text \<open>
  A Go call returns, panics, or never comes back: \<open>sync.Mutex\<close> is not reentrant, and with one
  thread of control a \<open>Lock\<close> on a held mutex waits for ever.
\<close>

datatype 'a outcome =
    Returned 'a World
  | Panicked string World
  | Blocked

definition emit :: "Event \<Rightarrow> World \<Rightarrow> World" where
  "emit ev w = w\<lparr>events := events w @ [ev]\<rparr>"

text \<open>\<open>l.reconnectLock.Lock()\<close> on a free mutex and \<open>l.reconnectLock.Unlock()\<close>.\<close>

definition Lock :: "World \<Rightarrow> World" where
  "Lock w = emit EvLock (w\<lparr>reconnectLock := True\<rparr>)"

definition Unlock :: "World \<Rightarrow> World" where
  "Unlock w = emit EvUnlock (w\<lparr>reconnectLock := False\<rparr>)"


section \<open>The error classifier\<close>

text \<open>
  Modelled from the spec: \<open>errors.IsOk\<close> of package \<open>virtwrap/errors\<close> is not among the
  sources. The spec's classifier returns without effect "if no error is present", and the
  library reports the absence of an error as the code \<open>ERR_OK\<close>.
\<close>

definition IsOk :: "Error \<Rightarrow> bool" where
  "IsOk err = (Code err = ERR_OK)"

definition checkConnectionLost :: "Libvirt \<Rightarrow> World \<Rightarrow> unit outcome" where
  "checkConnectionLost lib w =
     (if reconnectLock w then Blocked
      else
        let w1 = Lock w;
            err = lv_GetLastError lib
        in if IsOk err then Returned () (Unlock w1)
           else if Code err \<in> set [ERR_INTERNAL_ERROR, ERR_INVALID_CONN, ERR_AUTH_CANCELLED,
                                    ERR_NO_MEMORY, ERR_AUTH_FAILED, ERR_SYSTEM_ERROR, ERR_RPC]
           then Returned ()
                  (Unlock (emit (EvLogError (Some (Code err)) (Some err) ''Connection to libvirt lost.'')
                             (w1\<lparr>alive := False\<rparr>)))
           else Returned () (Unlock w1))"


section \<open>Opening a session\<close>

text \<open>
  \<open>newConnection\<close>: one attempt to open a session. The credential callback answers a request
  for the user name with \<open>user\<close> and a request for the passphrase with \<open>pass\<close>, and leaves
  every other request as it is.
\<close>

definition credCallback :: "string \<Rightarrow> string \<Rightarrow> ConnectCredential list \<Rightarrow> ConnectCredential list" where
  "credCallback usr pwd creds =
     map (\<lambda>cred.
            if CredentialType cred = CRED_AUTHNAME
            then cred\<lparr>Result := usr, ResultLen := length usr\<rparr>
            else if CredentialType cred = CRED_PASSPHRASE
            then cred\<lparr>Result := pwd, ResultLen := length pwd\<rparr>
            else cred) creds"

definition newConnection ::
  "Libvirt \<Rightarrow> string \<Rightarrow> string \<Rightarrow> string \<Rightarrow> virConnect option \<times> GoError option" where
  "newConnection lib u usr pwd =
     lv_NewConnectWithAuth lib u
       \<lparr>CredType = [CRED_AUTHNAME, CRED_PASSPHRASE], Callback = credCallback usr pwd\<rparr> 0"


section \<open>Reconnecting\<close>

text \<open>
  The loop \<open>for _, cb := range cbs { cb(l.Connect, nil, nil) }\<close>. A callback is a function
  value the program knows nothing about; the model records that it was called and with which
  arguments.
\<close>

fun notifyCallbacks :: "DomainEventLifecycleCallback list \<Rightarrow> World \<Rightarrow> World" where
  "notifyCallbacks [] w = w"
| "notifyCallbacks (cb # cbs) w = notifyCallbacks cbs (emit (EvInvoke cb (Connect w) None None) w)"

text \<open>
  \<open>reconnectIfNecessary\<close>. The mutex is taken on entry, and \<open>defer l.reconnectLock.Unlock()\<close>
  releases it when the function returns, on each of its three ways out. The assignment
  \<open>l.Connect, err = newConnection(...)\<close> stores the session pointer also when the attempt
  failed.
\<close>

definition reconnectIfNecessary :: "Libvirt \<Rightarrow> World \<Rightarrow> GoError option outcome" where
  "reconnectIfNecessary lib w =
     (if reconnectLock w then Blocked
      else
        let w1 = Lock w
        in if \<not> alive w1
           then (case newConnection lib (uri w1) (user w1) (pass w1) of
                   (c, err) \<Rightarrow>
                     let w2 = w1\<lparr>Connect := c\<rparr>
                     in (case err of
                           Some e \<Rightarrow> Returned (Some e) (Unlock w2)
                         | None \<Rightarrow>
                             let w3 = w2\<lparr>alive := True\<rparr>;
                                 cbs = callbacks w3;
                                 w4 = w3\<lparr>callbacks := []\<rparr>
                             in Returned None (Unlock (notifyCallbacks cbs w4))))
           else Returned None (Unlock w1))"

text \<open>
  \<open>defer l.checkConnectionLost()\<close>: the classifier runs when the surrounding function
  leaves, by a return or by a panic, and does not touch what the function returns.
\<close>

fun deferCheck :: "Libvirt \<Rightarrow> 'a outcome \<Rightarrow> 'a outcome" where
  "deferCheck lib (Returned r w) =
     (case checkConnectionLost lib w of
        Returned u w' \<Rightarrow> Returned r w'
      | Panicked m w' \<Rightarrow> Panicked m w'
      | Blocked \<Rightarrow> Blocked)"
| "deferCheck lib (Panicked m w) =
     (case checkConnectionLost lib w of
        Returned u w' \<Rightarrow> Panicked m w'
      | Panicked m' w' \<Rightarrow> Panicked m' w'
      | Blocked \<Rightarrow> Blocked)"
| "deferCheck lib Blocked = Blocked"


section \<open>The wrapped operations\<close>

text \<open>
  A Go result \<open>(value, err)\<close> is a pair; \<open>None\<close> in the first component is \<open>nil\<close>. Each
  operation first calls \<open>reconnectIfNecessary\<close> and returns its error if there is one.
\<close>

text \<open>The struct \<open>VirStream\<close>, which embeds the library's stream pointer.\<close>

datatype VirStream = VirStream "Stream option"

definition NewStream :: "Libvirt \<Rightarrow> nat \<Rightarrow> World \<Rightarrow> (VirStream option \<times> GoError option) outcome" where
  "NewStream lib flags w =
     (case reconnectIfNecessary lib w of
        Blocked \<Rightarrow> Blocked
      | Panicked m w1 \<Rightarrow> Panicked m w1
      | Returned (Some e) w1 \<Rightarrow> Returned (None, Some e) w1
      | Returned None w1 \<Rightarrow>
          deferCheck lib
            (case lv_NewStream lib (Connect w1) flags of
               (s, Some e) \<Rightarrow> Returned (None, Some e) w1
             | (s, None) \<Rightarrow> Returned (Some (VirStream s), None) w1))"

definition ListSecrets :: "Libvirt \<Rightarrow> World \<Rightarrow> (string list option \<times> GoError option) outcome" where
  "ListSecrets lib w =
     (case reconnectIfNecessary lib w of
        Blocked \<Rightarrow> Blocked
      | Panicked m w1 \<Rightarrow> Panicked m w1
      | Returned (Some e) w1 \<Rightarrow> Returned (None, Some e) w1
      | Returned None w1 \<Rightarrow> deferCheck lib (Returned (lv_ListSecrets lib (Connect w1)) w1))"

definition LookupSecretByUUIDString ::
  "Libvirt \<Rightarrow> string \<Rightarrow> World \<Rightarrow> (Secret option \<times> GoError option) outcome" where
  "LookupSecretByUUIDString lib uuid w =
     (case reconnectIfNecessary lib w of
        Blocked \<Rightarrow> Blocked
      | Panicked m w1 \<Rightarrow> Panicked m w1
      | Returned (Some e) w1 \<Rightarrow> Returned (None, Some e) w1
      | Returned None w1 \<Rightarrow>
          deferCheck lib (Returned (lv_LookupSecretByUUIDString lib (Connect w1) uuid) w1))"

definition LookupSecretByUsage ::
  "Libvirt \<Rightarrow> nat \<Rightarrow> string \<Rightarrow> World \<Rightarrow> (Secret option \<times> GoError option) outcome" where
  "LookupSecretByUsage lib usageType usageID w =
     (case reconnectIfNecessary lib w of
        Blocked \<Rightarrow> Blocked
      | Panicked m w1 \<Rightarrow> Panicked m w1
      | Returned (Some e) w1 \<Rightarrow> Returned (None, Some e) w1
      | Returned None w1 \<Rightarrow>
          deferCheck lib (Returned (lv_LookupSecretByUsage lib (Connect w1) usageType usageID) w1))"

definition SecretDefineXML ::
  "Libvirt \<Rightarrow> string \<Rightarrow> World \<Rightarrow> (Secret option \<times> GoError option) outcome" where
  "SecretDefineXML lib xml w =
     (case reconnectIfNecessary lib w of
        Blocked \<Rightarrow> Blocked
      | Panicked m w1 \<Rightarrow> Panicked m w1
      | Returned (Some e) w1 \<Rightarrow> Returned (None, Some e) w1
      | Returned None w1 \<Rightarrow>
          deferCheck lib (Returned (lv_SecretDefineXML lib (Connect w1) xml 0) w1))"

definition LookupGuestByName ::
  "Libvirt \<Rightarrow> string \<Rightarrow> World \<Rightarrow> (Domain option \<times> GoError option) outcome" where
  "LookupGuestByName lib name w =
     (case reconnectIfNecessary lib w of
        Blocked \<Rightarrow> Blocked
      | Panicked m w1 \<Rightarrow> Panicked m w1
      | Returned (Some e) w1 \<Rightarrow> Returned (None, Some e) w1
      | Returned None w1 \<Rightarrow>
          deferCheck lib (Returned (lv_LookupDomainByName lib (Connect w1) name) w1))"

definition DefineGuestSpec ::
  "Libvirt \<Rightarrow> string \<Rightarrow> World \<Rightarrow> (Domain option \<times> GoError option) outcome" where
  "DefineGuestSpec lib xml w =
     (case reconnectIfNecessary lib w of
        Blocked \<Rightarrow> Blocked
      | Panicked m w1 \<Rightarrow> Panicked m w1
      | Returned (Some e) w1 \<Rightarrow> Returned (None, Some e) w1
      | Returned None w1 \<Rightarrow>
          deferCheck lib (Returned (lv_DomainDefineXML lib (Connect w1) xml) w1))"

text \<open>
  \<open>RegisterGuestEventLifecycle\<close>. The type assertion \<open>callback.(DomainEventLifecycleCallback)\<close>
  has no second result, so it panics when the dynamic type of \<open>callback\<close> is another one; the
  deferred classifier still runs. The callback is appended to \<open>l.callbacks\<close> before the
  library is asked to register it.
\<close>

definition RegisterGuestEventLifecycle :: "Libvirt \<Rightarrow> GoValue \<Rightarrow> World \<Rightarrow> GoError option outcome" where
  "RegisterGuestEventLifecycle lib callback w =
     (case reconnectIfNecessary lib w of
        Blocked \<Rightarrow> Blocked
      | Panicked m w1 \<Rightarrow> Panicked m w1
      | Returned (Some e) w1 \<Rightarrow> Returned (Some e) w1
      | Returned None w1 \<Rightarrow>
          deferCheck lib
            (case callback of
               CallbackValue lvcb \<Rightarrow>
                 let w2 = w1\<lparr>callbacks := callbacks w1 @ [lvcb]\<rparr>
                 in Returned (snd (lv_DomainEventLifecycleRegister lib (Connect w2) None lvcb)) w2
             | OtherValue t \<Rightarrow> Panicked ''interface conversion'' w1
             | NilValue \<Rightarrow> Panicked ''interface conversion'' w1))"


text \<open>
  \<open>ListAllSecrets\<close> and \<open>ListAllGuests\<close> turn the library's slice of structs into a slice of
  pointers with \<open>for i, d := range xs { out[i] = &d }\<close>. The program is written in the Go of
  2017, where a range loop has one variable \<open>d\<close> for all its iterations. So a pointer is an
  address here and the result carries the memory the pointers point into: \<open>rangeAddr a i xs\<close>
  runs the loop from index \<open>i\<close> with the variable \<open>d\<close> at address \<open>a\<close>; each iteration
  assigns the element to \<open>d\<close> and stores the address of \<open>d\<close>. \<open>make\<close> fills the slice with
  \<open>nil\<close> first.
\<close>

type_synonym 'a PtrSlice = "nat option list \<times> (nat \<rightharpoonup> 'a)"

fun rangeAddr :: "nat \<Rightarrow> nat \<Rightarrow> 'a list \<Rightarrow> 'a PtrSlice \<Rightarrow> 'a PtrSlice" where
  "rangeAddr a i [] (out, mem) = (out, mem)"
| "rangeAddr a i (x # xs) (out, mem) = rangeAddr a (Suc i) xs (out[i := Some a], mem(a \<mapsto> x))"

text \<open>What the caller reads through the pointers of a returned slice.\<close>

definition deref :: "'a PtrSlice \<Rightarrow> 'a option list" where
  "deref s = map (\<lambda>p. case p of None \<Rightarrow> None | Some a \<Rightarrow> snd s a) (fst s)"

definition ListAllSecrets ::
  "Libvirt \<Rightarrow> nat \<Rightarrow> World \<Rightarrow> (Secret PtrSlice option \<times> GoError option) outcome" where
  "ListAllSecrets lib flags w =
     (case reconnectIfNecessary lib w of
        Blocked \<Rightarrow> Blocked
      | Panicked m w1 \<Rightarrow> Panicked m w1
      | Returned (Some e) w1 \<Rightarrow> Returned (None, Some e) w1
      | Returned None w1 \<Rightarrow>
          deferCheck lib
            (case lv_ListAllSecrets lib (Connect w1) flags of
               (virSecrets, Some e) \<Rightarrow> Returned (None, Some e) w1
             | (virSecrets, None) \<Rightarrow>
                 Returned
                   (Some (rangeAddr 0 0 virSecrets (replicate (length virSecrets) None, Map.empty)),
                    None) w1))"

definition ListAllGuests ::
  "Libvirt \<Rightarrow> bool \<Rightarrow> bool \<Rightarrow> World \<Rightarrow> (Domain PtrSlice option \<times> GoError option) outcome" where
  "ListAllGuests lib actives inactives w =
     (case reconnectIfNecessary lib w of
        Blocked \<Rightarrow> Blocked
      | Panicked m w1 \<Rightarrow> Panicked m w1
      | Returned (Some e) w1 \<Rightarrow> Returned (None, Some e) w1
      | Returned None w1 \<Rightarrow>
          deferCheck lib
            (let flags0 = {};
                 flags1 = (if actives then insert CONNECT_LIST_DOMAINS_ACTIVE flags0 else flags0);
                 flags2 = (if inactives then insert CONNECT_LIST_DOMAINS_INACTIVE flags1 else flags1)
             in case lv_ListAllDomains lib (Connect w1) flags2 of
                  (virDoms, Some e) \<Rightarrow> Returned (None, Some e) w1
                | (virDoms, None) \<Rightarrow>
                    Returned
                      (Some (rangeAddr 0 0 virDoms (replicate (length virDoms) None, Map.empty)),
                       None) w1))"


section \<open>Callbacks that do more than return\<close>

text \<open>
  \<open>notifyCallbacks\<close> and \<open>reconnectIfNecessary\<close> above take every call \<open>cb(l.Connect, nil, nil)\<close>
  to return at once. A callback is a function value handed in by the caller, and what it does
  when it is called is its own. \<open>CallbackBody\<close> lists what matters to the handle: the body
  returns without touching the handle (it may have sent the event somewhere); it calls
  \<open>l.RegisterGuestEventLifecycle(v)\<close> on the same handle and returns when that call has
  returned; it panics (so does the call of a \<open>nil\<close> function value); or it never returns.
\<close>

datatype CallbackBody =
    Returns
  | Registers GoValue
  | Panics string
  | NeverReturns

text \<open>
  The loop \<open>for _, cb := range cbs { cb(l.Connect, nil, nil) }\<close> again, with \<open>body cb\<close> the
  body of the callback \<open>cb\<close>: the call is recorded, then the body runs in the state the loop
  has reached. A panic or a call that never returns ends the loop. A body that calls
  \<open>RegisterGuestEventLifecycle\<close> calls the operation defined above; inside
  \<open>reconnectIfNecessary\<close> that call meets the held mutex before it reaches any callback.
\<close>

fun invokeCallbacks ::
  "(DomainEventLifecycleCallback \<Rightarrow> CallbackBody) \<Rightarrow> Libvirt \<Rightarrow>
     DomainEventLifecycleCallback list \<Rightarrow> World \<Rightarrow> unit outcome" where
  "invokeCallbacks body lib [] w = Returned () w"
| "invokeCallbacks body lib (cb # cbs) w =
     (case body cb of
        Returns \<Rightarrow> invokeCallbacks body lib cbs (emit (EvInvoke cb (Connect w) None None) w)
      | Registers v \<Rightarrow>
          (case RegisterGuestEventLifecycle lib v (emit (EvInvoke cb (Connect w) None None) w) of
             Returned r w' \<Rightarrow> invokeCallbacks body lib cbs w'
           | Panicked m w' \<Rightarrow> Panicked m w'
           | Blocked \<Rightarrow> Blocked)
      | Panics m \<Rightarrow> Panicked m (emit (EvInvoke cb (Connect w) None None) w)
      | NeverReturns \<Rightarrow> Blocked)"

text \<open>
  \<open>reconnectIfNecessary\<close> with the bodies of the callbacks. The statements are those of the
  source in their order: the session and \<open>alive\<close> are set and the registry is replaced by an
  empty one before the loop starts. The deferred \<open>Unlock\<close> runs when the function returns and
  when a callback panics; when a callback never returns, neither the loop nor the function
  comes back and the mutex stays held.
\<close>

definition reconnectIfNecessaryWith ::
  "(DomainEventLifecycleCallback \<Rightarrow> CallbackBody) \<Rightarrow> Libvirt \<Rightarrow> World \<Rightarrow> GoError option outcome" where
  "reconnectIfNecessaryWith body lib w =
     (if reconnectLock w then Blocked
      else
        let w1 = Lock w
        in if \<not> alive w1
           then (case newConnection lib (uri w1) (user w1) (pass w1) of
                   (c, err) \<Rightarrow>
                     let w2 = w1\<lparr>Connect := c\<rparr>
                     in (case err of
                           Some e \<Rightarrow> Returned (Some e) (Unlock w2)
                         | None \<Rightarrow>
                             let w3 = w2\<lparr>alive := True\<rparr>;
                                 cbs = callbacks w3;
                                 w4 = w3\<lparr>callbacks := []\<rparr>
                             in (case invokeCallbacks body lib cbs w4 of
                                   Returned u w5 \<Rightarrow> Returned None (Unlock w5)
                                 | Panicked m w5 \<Rightarrow> Panicked m (Unlock w5)
                                 | Blocked \<Rightarrow> Blocked)))
           else Returned None (Unlock w1))"


section \<open>The watchdog\<close>

text \<open>
  \<open>MonitorConnection\<close> starts a goroutine that waits, in a \<open>select\<close>, for the \<open>stop\<close> channel
  or for the timer. \<open>monitorTick\<close> is the body of the timer case, run once: the error of
  \<open>reconnectIfNecessary\<close> is dropped, then the session is asked whether it is alive.
\<close>

definition monitorTick :: "Libvirt \<Rightarrow> World \<Rightarrow> unit outcome" where
  "monitorTick lib w =
     (case reconnectIfNecessary lib w of
        Blocked \<Rightarrow> Blocked
      | Panicked m w1 \<Rightarrow> Panicked m w1
      | Returned r w1 \<Rightarrow>
          (case lv_IsAlive lib (Connect w1) of
             (True, err) \<Rightarrow> Returned () w1
           | (False, None) \<Rightarrow>
               let w2 = emit (EvLogError None None ''Connection to libvirt lost'') w1
               in if reconnectLock w2 then Blocked
                  else Returned () (Unlock ((Lock w2)\<lparr>alive := False\<rparr>))
           | (False, Some e) \<Rightarrow> checkConnectionLost lib w1))"


section \<open>Closing\<close>

text \<open>
  \<open>Close\<close> closes the \<open>stop\<close> channel and then calls \<open>l.Close()\<close>, which is this same method:
  \<open>Connect\<close> is a named field of the struct, not an embedded one. Go's \<open>close\<close> panics on a
  \<open>nil\<close> channel and on a channel that is closed already.
\<close>

function Close :: "World \<Rightarrow> (int \<times> GoError option) outcome" where
  "Close w =
     (case stop w of
        NilChan \<Rightarrow> Panicked ''close of nil channel'' w
      | ClosedChan \<Rightarrow> Panicked ''close of closed channel'' w
      | OpenChan \<Rightarrow> Close (w\<lparr>stop := ClosedChan\<rparr>))"
  by pat_completeness auto
termination
  by (relation "measure (\<lambda>w. if stop w = OpenChan then 1 else 0)") auto

declare Close.simps [simp del]


section \<open>The first connection\<close>

definition Second :: int where
  "Second = 1000000000"

definition ConnectionTimeout :: int where
  "ConnectionTimeout = 15 * Second"

definition ConnectionInterval :: int where
  "ConnectionInterval = 10 * Second"

text \<open>
  Modelled from the spec: \<open>PollImmediate\<close> of the package \<open>k8s.io/apimachinery/pkg/util/wait\<close>
  is not among the sources. The spec's dialer attempts at once, waits the fixed interval after
  each failed attempt and retries while the timeout has not elapsed, so that the attempt
  after \<open>N\<close> failures is made when \<open>N\<close> times the interval is less than the timeout; when the
  time is used up it fails with its own timeout error. A condition that returns an error ends
  the polling with that error. \<open>pollFrom\<close> is the polling with \<open>elapsed\<close> the time waited so
  far; the condition is a function of the state it works on.
\<close>

function pollFrom ::
  "int \<Rightarrow> int \<Rightarrow> int \<Rightarrow> ('s \<Rightarrow> (bool \<times> GoError option) \<times> 's) \<Rightarrow> 's \<Rightarrow> GoError option \<times> 's" where
  "pollFrom elapsed interval timeout condition s =
     (case condition s of
        ((done, Some e), s') \<Rightarrow> (Some e, s')
      | ((done, None), s') \<Rightarrow>
          if done then (None, s')
          else if 0 < interval \<and> elapsed + interval < timeout
          then pollFrom (elapsed + interval) interval timeout condition s'
          else (Some ErrWaitTimeout, s'))"
  by pat_completeness auto
termination
  by (relation "measure (\<lambda>(elapsed, interval, timeout, condition, s). nat (timeout - elapsed))") auto

declare pollFrom.simps [simp del]

text \<open>
  Modelled from the spec: \<open>PollImmediate\<close> itself, which makes its first attempt before any
  waiting.
\<close>

definition PollImmediate ::
  "int \<Rightarrow> int \<Rightarrow> ('s \<Rightarrow> (bool \<times> GoError option) \<times> 's) \<Rightarrow> 's \<Rightarrow> GoError option \<times> 's" where
  "PollImmediate interval timeout condition s = pollFrom 0 interval timeout condition s"

text \<open>
  \<open>NewConnection\<close>. The library may answer each attempt differently: \<open>libs k\<close> is the library
  at the attempt number \<open>k\<close>, counted from 0. The closure given to \<open>PollImmediate\<close> works on
  the variable \<open>virConn\<close> of \<open>NewConnection\<close> and on the number of attempts made so far; it
  is \<open>dialCondition\<close>, and returns \<open>false, nil\<close> after a failed attempt and \<open>true, nil\<close> after
  a successful one. \<open>connectPolling\<close> is the call of \<open>PollImmediate\<close>; \<open>NewConnection\<close> is
  what follows it. The two informational log lines are left out.
\<close>

definition dialCondition ::
  "(nat \<Rightarrow> Libvirt) \<Rightarrow> string \<Rightarrow> string \<Rightarrow> string \<Rightarrow>
     nat \<times> virConnect option \<Rightarrow> (bool \<times> GoError option) \<times> nat \<times> virConnect option" where
  "dialCondition libs u usr pwd =
     (\<lambda>(k, virConn).
        case newConnection (libs k) u usr pwd of
          (c, Some e) \<Rightarrow> ((False, None), (Suc k, c))
        | (c, None) \<Rightarrow> ((True, None), (Suc k, c)))"

definition connectPolling ::
  "(nat \<Rightarrow> Libvirt) \<Rightarrow> string \<Rightarrow> string \<Rightarrow> string \<Rightarrow> GoError option \<times> nat \<times> virConnect option" where
  "connectPolling libs u usr pwd =
     PollImmediate ConnectionInterval ConnectionTimeout (dialCondition libs u usr pwd) (0, None)"

definition NewConnection ::
  "(nat \<Rightarrow> Libvirt) \<Rightarrow> string \<Rightarrow> string \<Rightarrow> string \<Rightarrow> World option \<times> GoError option" where
  "NewConnection libs u usr pwd =
     (case connectPolling libs u usr pwd of
        (Some e, k, virConn) \<Rightarrow> (None, Some (Errorf ''cannot connect to libvirt daemon: '' e))
      | (None, k, virConn) \<Rightarrow>
          (Some \<lparr>Connect = virConn, user = usr, pass = pwd, uri = u, alive = True,
                 stop = NilChan, reconnectLock = False, callbacks = [], events = []\<rparr>,
           None))"

text \<open>An error made by \<open>fmt.Errorf\<close> wraps the error it was given, and what that one wraps.\<close>

fun wraps :: "GoError \<Rightarrow> GoError \<Rightarrow> bool" where
  "wraps (Errorf p e) x = (e = x \<or> wraps e x)"
| "wraps (LibvirtError e) x = False"
| "wraps ErrWaitTimeout x = False"


section \<open>Reading the record of events\<close>

text \<open>
  \<open>invokedWhileLocked held evs\<close> follows the mutex through a record of events, starting with
  the mutex held or not, and tells whether some callback was called while it was held.
\<close>

fun invokedWhileLocked :: "bool \<Rightarrow> Event list \<Rightarrow> bool" where
  "invokedWhileLocked held [] = False"
| "invokedWhileLocked held (EvLock # es) = invokedWhileLocked True es"
| "invokedWhileLocked held (EvUnlock # es) = invokedWhileLocked False es"
| "invokedWhileLocked held (EvInvoke cb c d ev # es) = (held \<or> invokedWhileLocked held es)"
| "invokedWhileLocked held (EvLogError code reason msg # es) = invokedWhileLocked held es"


section \<open>Sample inputs\<close>

definition okError :: Error where
  "okError = \<lparr>Code = ERR_OK, Message = []\<rparr>"

definition rpcError :: Error where
  "rpcError = \<lparr>Code = ERR_RPC, Message = ''connection reset by peer''\<rparr>"

text \<open>A library that answers every call with a success and has no last error.\<close>

definition sampleLib :: Libvirt where
  "sampleLib =
     \<lparr>lv_NewConnectWithAuth = (\<lambda>u a f. (Some (VirConnect 2), None)),
      lv_GetLastError = okError,
      lv_IsAlive = (\<lambda>c. (True, None)),
      lv_NewStream = (\<lambda>c f. (Some (Stream 1), None)),
      lv_ListSecrets = (\<lambda>c. (Some [''libvirt-secret''], None)),
      lv_LookupSecretByUUIDString = (\<lambda>c u. (Some (Secret 1), None)),
      lv_LookupSecretByUsage = (\<lambda>c t i. (Some (Secret 1), None)),
      lv_ListAllSecrets = (\<lambda>c f. ([Secret 1, Secret 2], None)),
      lv_SecretDefineXML = (\<lambda>c x f. (Some (Secret 1), None)),
      lv_DomainEventLifecycleRegister = (\<lambda>c d cb. (0, None)),
      lv_LookupDomainByName = (\<lambda>c n. (Some (Domain 1), None)),
      lv_DomainDefineXML = (\<lambda>c x. (Some (Domain 1), None)),
      lv_ListAllDomains = (\<lambda>c f. ([Domain 1, Domain 2], None))\<rparr>"

text \<open>The same library when the daemon cannot be reached.\<close>

definition downLib :: Libvirt where
  "downLib = sampleLib\<lparr>lv_NewConnectWithAuth := (\<lambda>u a f. (None, Some (LibvirtError rpcError)))\<rparr>"

text \<open>A handle as \<open>NewConnection\<close> makes it, with two callbacks registered since.\<close>

definition sampleConn :: World where
  "sampleConn =
     \<lparr>Connect = Some (VirConnect 1), user = ''kubevirt'', pass = ''secret'',
      uri = ''qemu:///system'', alive = True, stop = NilChan, reconnectLock = False,
      callbacks = [LifecycleCallback 1, LifecycleCallback 2], events = []\<rparr>"

text \<open>
  Bodies for the callbacks of the sample handle: every callback registers itself again at
  once; the first one is a \<open>nil\<close> function value; the second one panics.
\<close>

definition reRegisters :: "DomainEventLifecycleCallback \<Rightarrow> CallbackBody" where
  "reRegisters cb = Registers (CallbackValue cb)"

definition firstIsNil :: "DomainEventLifecycleCallback \<Rightarrow> CallbackBody" where
  "firstIsNil cb =
     (if cb = LifecycleCallback 1 then Panics ''invalid memory address or nil pointer dereference''
      else Returns)"

definition secondPanics :: "DomainEventLifecycleCallback \<Rightarrow> CallbackBody" where
  "secondPanics cb = (if cb = LifecycleCallback 2 then Panics ''event channel closed'' else Returns)"


section \<open>Facts about the building blocks\<close>

lemma notifyCallbacks_eq:
  "notifyCallbacks cbs w =
     w\<lparr>events := events w @ map (\<lambda>cb. EvInvoke cb (Connect w) None None) cbs\<rparr>"
  by (induction cbs arbitrary: w) (simp_all add: emit_def)

lemma reconnect_alive:
  assumes "\<not> reconnectLock w" and "alive w"
  shows "reconnectIfNecessary lib w = Returned None (w\<lparr>events := events w @ [EvLock, EvUnlock]\<rparr>)"
  using assms by (simp add: reconnectIfNecessary_def Lock_def Unlock_def emit_def)

lemma reconnect_success:
  assumes "\<not> reconnectLock w" and "\<not> alive w"
    and "newConnection lib (uri w) (user w) (pass w) = (c, None)"
  shows "reconnectIfNecessary lib w =
           Returned None
             (w\<lparr>Connect := c, alive := True, callbacks := [],
                events := events w @ [EvLock] @
                          map (\<lambda>cb. EvInvoke cb c None None) (callbacks w) @ [EvUnlock]\<rparr>)"
  using assms
  by (simp add: reconnectIfNecessary_def Lock_def Unlock_def emit_def notifyCallbacks_eq)

lemma reconnect_failure:
  assumes "\<not> reconnectLock w" and "\<not> alive w"
    and "newConnection lib (uri w) (user w) (pass w) = (c, Some e)"
  shows "reconnectIfNecessary lib w =
           Returned (Some e) (w\<lparr>Connect := c, events := events w @ [EvLock, EvUnlock]\<rparr>)"
  using assms
  by (simp add: reconnectIfNecessary_def Lock_def Unlock_def emit_def)

lemma reconnect_blocked:
  "reconnectLock w \<Longrightarrow> reconnectIfNecessary lib w = Blocked"
  by (simp add: reconnectIfNecessary_def)

lemma reconnect_returns:
  assumes "\<not> reconnectLock w"
  shows "\<exists>r w1. reconnectIfNecessary lib w = Returned r w1 \<and> \<not> reconnectLock w1"
proof (cases "alive w")
  case True
  with assms show ?thesis by (simp add: reconnect_alive)
next
  case False
  obtain c err where dial: "newConnection lib (uri w) (user w) (pass w) = (c, err)"
    by (cases "newConnection lib (uri w) (user w) (pass w)")
  show ?thesis
  proof (cases err)
    case None
    with assms False dial show ?thesis by (simp add: reconnect_success)
  next
    case (Some e)
    with assms False dial show ?thesis by (simp add: reconnect_failure)
  qed
qed

lemma check_returns:
  assumes "\<not> reconnectLock w"
  shows "\<exists>w'. checkConnectionLost lib w = Returned () w' \<and> callbacks w' = callbacks w \<and>
           \<not> reconnectLock w' \<and> uri w' = uri w \<and> user w' = user w \<and> pass w' = pass w"
  using assms
  by (simp add: checkConnectionLost_def Lock_def Unlock_def emit_def Let_def)

lemma check_blocked:
  "reconnectLock w \<Longrightarrow> checkConnectionLost lib w = Blocked"
  by (simp add: checkConnectionLost_def)

lemma invoked_under_lock:
  "invokedWhileLocked True (map (\<lambda>cb. EvInvoke cb c None None) cbs @ es) =
     (cbs \<noteq> [] \<or> invokedWhileLocked True es)"
  by (induction cbs) auto

lemma count_invocations:
  "count_list (map (\<lambda>x. EvInvoke x c None None) cbs) (EvInvoke cb c None None) = count_list cbs cb"
  by (induction cbs) auto


section \<open>What the classifier changes\<close>

text \<open>
  Claim C1. \<open>checkConnectionLost\<close>, called with the mutex free, returns, and it sets \<open>alive\<close>
  to false exactly when the last error of the library is present (its code is not \<open>ERR_OK\<close>)
  and the code is one of internal-error, invalid-connection, auth-cancelled, out-of-memory,
  auth-failed, system-error and rpc-error; it then writes one log record with the code. For
  every other code, and when there is no error, \<open>alive\<close> keeps its value. Nothing else of
  the handle changes in either case.
\<close>

theorem checkConnectionLost_classifies:
  assumes "\<not> reconnectLock w" and "lv_GetLastError lib = err"
  shows "\<exists>w'. checkConnectionLost lib w = Returned () w' \<and>
           alive w' =
             (if Code err \<noteq> ERR_OK \<and>
                 Code err \<in> {ERR_INTERNAL_ERROR, ERR_INVALID_CONN, ERR_AUTH_CANCELLED,
                              ERR_NO_MEMORY, ERR_AUTH_FAILED, ERR_SYSTEM_ERROR, ERR_RPC}
              then False else alive w) \<and>
           events w' =
             (if Code err \<noteq> ERR_OK \<and>
                 Code err \<in> {ERR_INTERNAL_ERROR, ERR_INVALID_CONN, ERR_AUTH_CANCELLED,
                              ERR_NO_MEMORY, ERR_AUTH_FAILED, ERR_SYSTEM_ERROR, ERR_RPC}
              then events w @
                   [EvLock, EvLogError (Some (Code err)) (Some err) ''Connection to libvirt lost.'',
                    EvUnlock]
              else events w @ [EvLock, EvUnlock]) \<and>
           w'\<lparr>alive := alive w, events := events w\<rparr> = w"
  using assms
  by (auto simp: checkConnectionLost_def Lock_def Unlock_def emit_def IsOk_def Let_def)

theorem checkConnectionLost_classifies_witness:
  "\<not> reconnectLock sampleConn \<and>
   lv_GetLastError (sampleLib\<lparr>lv_GetLastError := rpcError\<rparr>) = rpcError \<and>
   lv_GetLastError sampleLib = okError \<and>
   checkConnectionLost (sampleLib\<lparr>lv_GetLastError := rpcError\<rparr>) sampleConn =
     Returned ()
       (sampleConn\<lparr>alive := False,
          events := [EvLock, EvLogError (Some ERR_RPC) (Some rpcError) ''Connection to libvirt lost.'',
                     EvUnlock]\<rparr>) \<and>
   checkConnectionLost sampleLib sampleConn =
     Returned () (sampleConn\<lparr>events := [EvLock, EvUnlock]\<rparr>)"
  using checkConnectionLost_classifies [of sampleConn "sampleLib\<lparr>lv_GetLastError := rpcError\<rparr>" rpcError]
    checkConnectionLost_classifies [of sampleConn sampleLib okError]
  by (simp add: sampleConn_def sampleLib_def rpcError_def okError_def checkConnectionLost_def
      Lock_def Unlock_def emit_def IsOk_def)

section \<open>The registry and the mutex during a reconnect\<close>

text \<open>
  With bodies that only return, the loop and the function are the ones defined first.
\<close>

lemma invokeCallbacks_all_return:
  "list_all (\<lambda>x. body x = Returns) cbs \<Longrightarrow>
   invokeCallbacks body lib cbs w = Returned () (notifyCallbacks cbs w)"
  by (induction cbs arbitrary: w) simp_all

lemma reconnectIfNecessaryWith_returning:
  "reconnectIfNecessaryWith (\<lambda>cb. Returns) lib w = reconnectIfNecessary lib w"
proof -
  have "invokeCallbacks (\<lambda>cb. Returns) lib cbs v = Returned () (notifyCallbacks cbs v)" for cbs v
    by (rule invokeCallbacks_all_return) (simp add: list_all_iff)
  then show ?thesis
    by (simp add: reconnectIfNecessaryWith_def reconnectIfNecessary_def Let_def
        split: prod.split option.split)
qed

lemma register_blocked:
  "reconnectLock w \<Longrightarrow> RegisterGuestEventLifecycle lib v w = Blocked"
  by (simp add: RegisterGuestEventLifecycle_def reconnect_blocked)

lemma invokeCallbacks_panic:
  assumes "list_all (\<lambda>x. body x = Returns) pre" and "body cb = Panics m"
  shows "invokeCallbacks body lib (pre @ cb # post) w = Panicked m (notifyCallbacks (pre @ [cb]) w)"
  using assms(1)
proof (induction pre arbitrary: w)
  case Nil
  then show ?case by (simp add: assms(2))
next
  case (Cons x pre)
  then show ?case by simp
qed

lemma invokeCallbacks_blocked:
  assumes "list_all (\<lambda>x. body x = Returns) pre"
    and "body cb = NeverReturns \<or> (\<exists>v. body cb = Registers v)"
    and "reconnectLock w"
  shows "invokeCallbacks body lib (pre @ cb # post) w = Blocked"
  using assms(1,3)
proof (induction pre arbitrary: w)
  case Nil
  have "reconnectLock (emit (EvInvoke cb (Connect w) None None) w)"
    using Nil.prems(2) by (simp add: emit_def)
  then have "RegisterGuestEventLifecycle lib v (emit (EvInvoke cb (Connect w) None None) w) = Blocked"
    for v by (rule register_blocked)
  then show ?case using assms(2) by auto
next
  case (Cons x pre)
  have "reconnectLock (emit (EvInvoke x (Connect w) None None) w)"
    using Cons.prems(2) by (simp add: emit_def)
  with Cons show ?case by simp
qed

text \<open>
  Claim C2, as the spec states it: on every successful reconnect every callback registered
  before is called exactly once, whatever the registry. The sample library opens the session
  at once in each of three runs. When the registry holds the same callback twice and the
  callbacks only return, the reconnect returns \<open>nil\<close> and that callback has been called twice.
  When each callback registers itself again at once, the first call waits for the mutex the
  reconnect holds, and the reconnect never comes back: the second callback is not called.
  When the first callback is a \<open>nil\<close> function value, the reconnect panics after that one
  call: the second callback has not been called and is no longer in the registry.
\<close>

theorem reconnect_calls_each_once_counterexample:
  "reconnectIfNecessaryWith (\<lambda>cb. Returns) sampleLib
     (sampleConn\<lparr>alive := False, callbacks := [LifecycleCallback 1, LifecycleCallback 1]\<rparr>) =
     Returned None
       (sampleConn\<lparr>Connect := Some (VirConnect 2), callbacks := [],
          events := [EvLock,
                     EvInvoke (LifecycleCallback 1) (Some (VirConnect 2)) None None,
                     EvInvoke (LifecycleCallback 1) (Some (VirConnect 2)) None None,
                     EvUnlock]\<rparr>) \<and>
   count_list
     [EvLock,
      EvInvoke (LifecycleCallback 1) (Some (VirConnect 2)) None None,
      EvInvoke (LifecycleCallback 1) (Some (VirConnect 2)) None None,
      EvUnlock]
     (EvInvoke (LifecycleCallback 1) (Some (VirConnect 2)) None None) = 2 \<and>
   reconnectIfNecessaryWith reRegisters sampleLib (sampleConn\<lparr>alive := False\<rparr>) = Blocked \<and>
   reconnectIfNecessaryWith firstIsNil sampleLib (sampleConn\<lparr>alive := False\<rparr>) =
     Panicked ''invalid memory address or nil pointer dereference''
       (sampleConn\<lparr>Connect := Some (VirConnect 2), callbacks := [],
          events := [EvLock,
                     EvInvoke (LifecycleCallback 1) (Some (VirConnect 2)) None None,
                     EvUnlock]\<rparr>)"
  by (simp add: sampleConn_def sampleLib_def newConnection_def reconnectIfNecessaryWith_def
      reRegisters_def firstIsNil_def RegisterGuestEventLifecycle_def reconnectIfNecessary_def
      Lock_def Unlock_def emit_def)

text \<open>
  Claim C2, amended. When \<open>reconnectIfNecessary\<close> is called on a handle that is not alive,
  with the mutex free, and the attempt to open a session succeeds with the session \<open>c\<close>, the
  whole registry is taken and replaced by an empty one before any of the taken callbacks
  runs, and it is empty from then on however the replay ends. The callbacks are called in
  the order of registration, each with \<open>(c, nil, nil)\<close>, one call for each entry of the old
  registry, so that a callback is called as many times as it was registered, and exactly
  once when it was registered once. When every callback returns, all entries have been
  called and the function returns \<open>nil\<close> with the mutex released. The replay ends at the
  first callback that does not return: when that callback panics, the function panics, the
  entries before it and the entry itself have been called, the entries after it have not,
  and the registry is empty all the same; when it never returns, or calls
  \<open>RegisterGuestEventLifecycle\<close> on the handle at once, the function never comes back. This
  holds for any registry.
\<close>

theorem reconnect_replays_registry:
  assumes "\<not> reconnectLock w" and "\<not> alive w"
    and "newConnection lib (uri w) (user w) (pass w) = (c, None)"
  shows "(list_all (\<lambda>x. body x = Returns) (callbacks w) \<longrightarrow>
            reconnectIfNecessaryWith body lib w =
              Returned None
                (w\<lparr>Connect := c, alive := True, callbacks := [],
                    events := events w @ [EvLock] @
                      map (\<lambda>x. EvInvoke x c None None) (callbacks w) @ [EvUnlock]\<rparr>) \<and>
            (\<forall>cb. count_list (map (\<lambda>x. EvInvoke x c None None) (callbacks w))
                    (EvInvoke cb c None None) = count_list (callbacks w) cb)) \<and>
         (\<forall>pre cb post m.
            callbacks w = pre @ cb # post \<and> list_all (\<lambda>x. body x = Returns) pre \<and>
            body cb = Panics m \<longrightarrow>
              reconnectIfNecessaryWith body lib w =
                Panicked m
                  (w\<lparr>Connect := c, alive := True, callbacks := [],
                      events := events w @ [EvLock] @
                        map (\<lambda>x. EvInvoke x c None None) (pre @ [cb]) @ [EvUnlock]\<rparr>)) \<and>
         (\<forall>pre cb post.
            callbacks w = pre @ cb # post \<and> list_all (\<lambda>x. body x = Returns) pre \<and>
            (body cb = NeverReturns \<or> (\<exists>v. body cb = Registers v)) \<longrightarrow>
              reconnectIfNecessaryWith body lib w = Blocked)"
proof -
  let ?wd = "(Lock w)\<lparr>Connect := c, alive := True, callbacks := []\<rparr>"
  have held: "reconnectLock ?wd" and conn: "Connect ?wd = c"
    by (simp_all add: Lock_def emit_def)
  have run: "reconnectIfNecessaryWith body lib w =
               (case invokeCallbacks body lib (callbacks w) ?wd of
                  Returned u w5 \<Rightarrow> Returned None (Unlock w5)
                | Panicked m w5 \<Rightarrow> Panicked m (Unlock w5)
                | Blocked \<Rightarrow> Blocked)"
    using assms by (simp add: reconnectIfNecessaryWith_def Lock_def emit_def)
  have after: "Unlock (notifyCallbacks cbs ?wd) =
                 w\<lparr>Connect := c, alive := True, callbacks := [],
                    events := events w @ [EvLock] @ map (\<lambda>x. EvInvoke x c None None) cbs @ [EvUnlock]\<rparr>"
    for cbs
    using assms(1) by (simp add: notifyCallbacks_eq Lock_def Unlock_def emit_def)
  have all_return:
    "reconnectIfNecessaryWith body lib w =
       Returned None
         (w\<lparr>Connect := c, alive := True, callbacks := [],
             events := events w @ [EvLock] @
               map (\<lambda>x. EvInvoke x c None None) (callbacks w) @ [EvUnlock]\<rparr>)"
    if "list_all (\<lambda>x. body x = Returns) (callbacks w)"
    using invokeCallbacks_all_return [OF that, of lib ?wd] by (simp add: run after)
  have panic:
    "reconnectIfNecessaryWith body lib w =
       Panicked m
         (w\<lparr>Connect := c, alive := True, callbacks := [],
             events := events w @ [EvLock] @
               map (\<lambda>x. EvInvoke x c None None) (pre @ [cb]) @ [EvUnlock]\<rparr>)"
    if "callbacks w = pre @ cb # post" and "list_all (\<lambda>x. body x = Returns) pre"
      and "body cb = Panics m" for pre cb post m
    using invokeCallbacks_panic [OF that(2,3), of lib post ?wd] by (simp add: run that(1) after)
  have blocked: "reconnectIfNecessaryWith body lib w = Blocked"
    if "callbacks w = pre @ cb # post" and "list_all (\<lambda>x. body x = Returns) pre"
      and "body cb = NeverReturns \<or> (\<exists>v. body cb = Registers v)" for pre cb post
    using invokeCallbacks_blocked [OF that(2,3) held, of lib post] by (simp add: run that(1))
  show ?thesis
    using all_return panic blocked by (simp add: count_invocations)
qed

theorem reconnect_replays_registry_witness:
  "\<not> reconnectLock (sampleConn\<lparr>alive := False\<rparr>) \<and> \<not> alive (sampleConn\<lparr>alive := False\<rparr>) \<and>
   newConnection sampleLib ''qemu:///system'' ''kubevirt'' ''secret'' = (Some (VirConnect 2), None) \<and>
   list_all (\<lambda>x. secondPanics x = Returns) [LifecycleCallback 1] \<and>
   secondPanics (LifecycleCallback 2) = Panics ''event channel closed'' \<and>
   reRegisters (LifecycleCallback 1) = Registers (CallbackValue (LifecycleCallback 1)) \<and>
   reconnectIfNecessaryWith (\<lambda>cb. Returns) sampleLib (sampleConn\<lparr>alive := False\<rparr>) =
     Returned None
       (sampleConn\<lparr>Connect := Some (VirConnect 2), callbacks := [],
          events := [EvLock,
                     EvInvoke (LifecycleCallback 1) (Some (VirConnect 2)) None None,
                     EvInvoke (LifecycleCallback 2) (Some (VirConnect 2)) None None,
                     EvUnlock]\<rparr>) \<and>
   reconnectIfNecessaryWith secondPanics sampleLib (sampleConn\<lparr>alive := False\<rparr>) =
     Panicked ''event channel closed''
       (sampleConn\<lparr>Connect := Some (VirConnect 2), callbacks := [],
          events := [EvLock,
                     EvInvoke (LifecycleCallback 1) (Some (VirConnect 2)) None None,
                     EvInvoke (LifecycleCallback 2) (Some (VirConnect 2)) None None,
                     EvUnlock]\<rparr>) \<and>
   reconnectIfNecessaryWith reRegisters sampleLib (sampleConn\<lparr>alive := False\<rparr>) = Blocked"
proof -
  let ?w = "sampleConn\<lparr>alive := False\<rparr>"
  let ?c = "Some (VirConnect 2)"
  let ?cb1 = "LifecycleCallback 1"
  let ?cb2 = "LifecycleCallback 2"
  have h1: "\<not> reconnectLock ?w" and h2: "\<not> alive ?w"
    by (simp_all add: sampleConn_def)
  have dial: "newConnection sampleLib ''qemu:///system'' ''kubevirt'' ''secret'' = (?c, None)"
    by (simp add: newConnection_def sampleLib_def)
  have h3: "newConnection sampleLib (uri ?w) (user ?w) (pass ?w) = (?c, None)"
    using dial by (simp add: sampleConn_def)
  have cbs: "callbacks ?w = [?cb1, ?cb2]"
    by (simp add: sampleConn_def)
  note facts = reconnect_replays_registry [OF h1 h2 h3]
  have ret: "list_all (\<lambda>x. (\<lambda>cb. Returns) x = Returns) (callbacks ?w)"
    by (simp add: list_all_iff)
  have pre: "list_all (\<lambda>x. secondPanics x = Returns) [?cb1]"
    by (simp add: secondPanics_def)
  have pan: "secondPanics ?cb2 = Panics ''event channel closed''"
    by (simp add: secondPanics_def)
  have reg: "reRegisters ?cb1 = Registers (CallbackValue ?cb1)"
    by (simp add: reRegisters_def)
  have r1: "reconnectIfNecessaryWith (\<lambda>cb. Returns) sampleLib ?w =
              Returned None
                (?w\<lparr>Connect := ?c, alive := True, callbacks := [],
                    events := events ?w @ [EvLock] @
                      map (\<lambda>x. EvInvoke x ?c None None) (callbacks ?w) @ [EvUnlock]\<rparr>)"
    using facts [where body = "\<lambda>cb. Returns", THEN conjunct1, THEN mp, OF ret]
    by (rule conjunct1)
  have r2: "reconnectIfNecessaryWith secondPanics sampleLib ?w =
              Panicked ''event channel closed''
                (?w\<lparr>Connect := ?c, alive := True, callbacks := [],
                    events := events ?w @ [EvLock] @
                      map (\<lambda>x. EvInvoke x ?c None None) ([?cb1] @ [?cb2]) @ [EvUnlock]\<rparr>)"
    using facts [where body = secondPanics, THEN conjunct2, THEN conjunct1, rule_format,
                 of "[?cb1]" ?cb2 "[]" "''event channel closed''"] cbs pre pan
    by simp
  have r3: "reconnectIfNecessaryWith reRegisters sampleLib ?w = Blocked"
    using facts [where body = reRegisters, THEN conjunct2, THEN conjunct2, rule_format,
                 of "[]" ?cb1 "[?cb2]"] cbs reg
    by simp
  have r1': "reconnectIfNecessaryWith (\<lambda>cb. Returns) sampleLib ?w =
               Returned None
                 (sampleConn\<lparr>Connect := ?c, callbacks := [],
                    events := [EvLock, EvInvoke ?cb1 ?c None None, EvInvoke ?cb2 ?c None None,
                               EvUnlock]\<rparr>)"
    using r1 by (simp add: sampleConn_def)
  have r2': "reconnectIfNecessaryWith secondPanics sampleLib ?w =
               Panicked ''event channel closed''
                 (sampleConn\<lparr>Connect := ?c, callbacks := [],
                    events := [EvLock, EvInvoke ?cb1 ?c None None, EvInvoke ?cb2 ?c None None,
                               EvUnlock]\<rparr>)"
    using r2 by (simp add: sampleConn_def)
  show ?thesis
    by (intro conjI h1 h2 dial pre pan reg r1' r2' r3)
qed

text \<open>
  Claim C3, as the spec states it: during a successful reconnect the mutex is released before
  the drained callbacks are called, so that a callback which registers itself again at once
  does not deadlock. On the sample handle with two callbacks the record of events shows both
  calls between the \<open>Lock\<close> and the \<open>Unlock\<close>, and \<open>RegisterGuestEventLifecycle\<close> called in the
  state in which the callbacks run never comes back.
\<close>

theorem reconnect_unlocks_first_counterexample:
  "reconnectIfNecessary sampleLib (sampleConn\<lparr>alive := False\<rparr>) =
     Returned None
       (Unlock (notifyCallbacks [LifecycleCallback 1, LifecycleCallback 2]
          ((Lock (sampleConn\<lparr>alive := False\<rparr>))
             \<lparr>Connect := Some (VirConnect 2), alive := True, callbacks := []\<rparr>))) \<and>
   events (Unlock (notifyCallbacks [LifecycleCallback 1, LifecycleCallback 2]
          ((Lock (sampleConn\<lparr>alive := False\<rparr>))
             \<lparr>Connect := Some (VirConnect 2), alive := True, callbacks := []\<rparr>))) =
     [EvLock,
      EvInvoke (LifecycleCallback 1) (Some (VirConnect 2)) None None,
      EvInvoke (LifecycleCallback 2) (Some (VirConnect 2)) None None,
      EvUnlock] \<and>
   invokedWhileLocked False
     [EvLock,
      EvInvoke (LifecycleCallback 1) (Some (VirConnect 2)) None None,
      EvInvoke (LifecycleCallback 2) (Some (VirConnect 2)) None None,
      EvUnlock] \<and>
   RegisterGuestEventLifecycle sampleLib (CallbackValue (LifecycleCallback 1))
     ((Lock (sampleConn\<lparr>alive := False\<rparr>))
        \<lparr>Connect := Some (VirConnect 2), alive := True, callbacks := []\<rparr>) = Blocked"
  by (simp add: sampleConn_def sampleLib_def newConnection_def reconnectIfNecessary_def
      RegisterGuestEventLifecycle_def Lock_def Unlock_def emit_def)

text \<open>
  Claim C3, amended. During a successful reconnect the mutex is held while the drained
  callbacks are called and is released only after the last of them has returned: the loop
  starts in a state \<open>wd\<close> with the mutex held, the mutex stays held however many callbacks
  have been called, and the events of the reconnect are the \<open>Lock\<close>, the calls, and then the
  \<open>Unlock\<close>. Every wrapped operation that a callback would call on the same handle from
  inside the loop (\<open>RegisterGuestEventLifecycle\<close> to register itself again, or any other,
  since each starts with \<open>reconnectIfNecessary\<close>) waits for the mutex for ever.
\<close>

theorem reconnect_invokes_under_lock:
  assumes "\<not> reconnectLock w" and "\<not> alive w"
    and "newConnection lib (uri w) (user w) (pass w) = (c, None)"
  shows "\<exists>wd w'. reconnectIfNecessary lib w = Returned None w' \<and>
           w' = Unlock (notifyCallbacks (callbacks w) wd) \<and>
           reconnectLock wd \<and>
           (\<forall>cbs. reconnectLock (notifyCallbacks cbs wd)) \<and>
           (\<forall>cbs lib' v. RegisterGuestEventLifecycle lib' v (notifyCallbacks cbs wd) = Blocked) \<and>
           (\<forall>cbs lib'. reconnectIfNecessary lib' (notifyCallbacks cbs wd) = Blocked) \<and>
           events w' = events w @ [EvLock] @
                       map (\<lambda>cb. EvInvoke cb c None None) (callbacks w) @ [EvUnlock] \<and>
           invokedWhileLocked False (drop (length (events w)) (events w')) = (callbacks w \<noteq> [])"
proof -
  let ?wd = "(Lock w)\<lparr>Connect := c, alive := True, callbacks := []\<rparr>"
  have held: "reconnectLock (notifyCallbacks cbs ?wd)" for cbs
    by (simp add: notifyCallbacks_eq Lock_def emit_def)
  have run: "reconnectIfNecessary lib w = Returned None (Unlock (notifyCallbacks (callbacks w) ?wd))"
    using assms by (simp add: reconnectIfNecessary_def Lock_def emit_def)
  have evs: "events (Unlock (notifyCallbacks (callbacks w) ?wd)) =
               events w @ [EvLock] @ map (\<lambda>cb. EvInvoke cb c None None) (callbacks w) @ [EvUnlock]"
    by (simp add: notifyCallbacks_eq Lock_def Unlock_def emit_def)
  have blocked: "reconnectIfNecessary lib' (notifyCallbacks cbs ?wd) = Blocked" for cbs lib'
    by (rule reconnect_blocked) (rule held)
  have reg: "RegisterGuestEventLifecycle lib' v (notifyCallbacks cbs ?wd) = Blocked" for cbs lib' v
    by (simp add: RegisterGuestEventLifecycle_def blocked)
  have under: "invokedWhileLocked False
                 (drop (length (events w)) (events (Unlock (notifyCallbacks (callbacks w) ?wd)))) =
               (callbacks w \<noteq> [])"
    by (simp add: evs invoked_under_lock)
  show ?thesis
    using run held[of "[]"] held blocked reg evs under by auto
qed

theorem reconnect_invokes_under_lock_witness:
  "\<not> reconnectLock (sampleConn\<lparr>alive := False\<rparr>) \<and> \<not> alive (sampleConn\<lparr>alive := False\<rparr>) \<and>
   newConnection sampleLib ''qemu:///system'' ''kubevirt'' ''secret'' = (Some (VirConnect 2), None) \<and>
   events (case reconnectIfNecessary sampleLib (sampleConn\<lparr>alive := False\<rparr>) of
             Returned r w' \<Rightarrow> w' | Panicked m w' \<Rightarrow> w' | Blocked \<Rightarrow> sampleConn) =
     [EvLock,
      EvInvoke (LifecycleCallback 1) (Some (VirConnect 2)) None None,
      EvInvoke (LifecycleCallback 2) (Some (VirConnect 2)) None None,
      EvUnlock]"
  using reconnect_invokes_under_lock [of "sampleConn\<lparr>alive := False\<rparr>" sampleLib "Some (VirConnect 2)"]
  by (simp add: sampleConn_def sampleLib_def newConnection_def reconnectIfNecessary_def
      Lock_def Unlock_def emit_def)

text \<open>
  Claim C4. When \<open>reconnectIfNecessary\<close> is called on a handle that is not alive, with the
  mutex free, and its one attempt to open a session fails with the error \<open>e\<close>, it returns
  \<open>e\<close>; \<open>alive\<close> is still false; the registry is what it was; and no callback was called:
  the only events are the \<open>Lock\<close> and the \<open>Unlock\<close>. Of the handle only the session pointer
  changed, to the pointer the failed attempt returned.
\<close>

theorem reconnect_failure_keeps_registry:
  assumes "\<not> reconnectLock w" and "\<not> alive w"
    and "newConnection lib (uri w) (user w) (pass w) = (c, Some e)"
  shows "\<exists>w'. reconnectIfNecessary lib w = Returned (Some e) w' \<and>
           \<not> alive w' \<and> callbacks w' = callbacks w \<and>
           events w' = events w @ [EvLock, EvUnlock] \<and>
           w' = w\<lparr>Connect := c, events := events w @ [EvLock, EvUnlock]\<rparr>"
  using assms
  by (simp add: reconnectIfNecessary_def Lock_def Unlock_def emit_def)

theorem reconnect_failure_keeps_registry_witness:
  "\<not> reconnectLock (sampleConn\<lparr>alive := False\<rparr>) \<and> \<not> alive (sampleConn\<lparr>alive := False\<rparr>) \<and>
   newConnection downLib ''qemu:///system'' ''kubevirt'' ''secret'' =
     (None, Some (LibvirtError rpcError)) \<and>
   reconnectIfNecessary downLib (sampleConn\<lparr>alive := False\<rparr>) =
     Returned (Some (LibvirtError rpcError))
       (sampleConn\<lparr>Connect := None, alive := False, events := [EvLock, EvUnlock]\<rparr>)"
  using reconnect_failure_keeps_registry
          [of "sampleConn\<lparr>alive := False\<rparr>" downLib None "LibvirtError rpcError"]
  by (simp add: sampleConn_def sampleLib_def downLib_def newConnection_def reconnectIfNecessary_def
      Lock_def Unlock_def emit_def)

section \<open>What the wrapped operations return\<close>

text \<open>
  The deferred classifier leaves the returned value alone; of the handle it changes at most
  \<open>alive\<close>.
\<close>

lemma check_frame:
  assumes "\<not> reconnectLock w"
  shows "\<exists>w'. checkConnectionLost lib w = Returned () w' \<and>
           w'\<lparr>alive := alive w, events := events w\<rparr> = w"
  using assms
  by (auto simp: checkConnectionLost_def Lock_def Unlock_def emit_def IsOk_def Let_def)

lemma deferCheck_keeps_result:
  assumes "\<not> reconnectLock w"
  shows "\<exists>w'. deferCheck lib (Returned r w) = Returned r w' \<and>
           w'\<lparr>alive := alive w, events := events w\<rparr> = w"
proof -
  obtain w' where chk: "checkConnectionLost lib w = Returned () w'"
    and same: "w'\<lparr>alive := alive w, events := events w\<rparr> = w"
    using check_frame [OF assms] by blast
  have "deferCheck lib (Returned r w) = Returned r w'"
    by (simp add: chk)
  with same show ?thesis by blast
qed

lemma ListSecrets_passes_result:
  assumes "\<not> reconnectLock w" and "alive w"
  shows "\<exists>w'. ListSecrets lib w = Returned (lv_ListSecrets lib (Connect w)) w' \<and>
           w'\<lparr>alive := alive w, events := events w @ [EvLock, EvUnlock]\<rparr> =
             w\<lparr>events := events w @ [EvLock, EvUnlock]\<rparr>"
proof -
  define w1 where "w1 = w\<lparr>events := events w @ [EvLock, EvUnlock]\<rparr>"
  have free: "\<not> reconnectLock w1" and conn: "Connect w1 = Connect w"
    and al: "alive w1 = alive w" and ev: "events w1 = events w @ [EvLock, EvUnlock]"
    using assms(1) by (simp_all add: w1_def)
  have run: "reconnectIfNecessary lib w = Returned None w1"
    using assms by (simp add: reconnect_alive w1_def)
  obtain w' where d: "deferCheck lib (Returned (lv_ListSecrets lib (Connect w1)) w1) =
                        Returned (lv_ListSecrets lib (Connect w1)) w'"
    and same: "w'\<lparr>alive := alive w1, events := events w1\<rparr> = w1"
    using deferCheck_keeps_result [OF free, where lib = lib and r = "lv_ListSecrets lib (Connect w1)"]
    by blast
  have "ListSecrets lib w = deferCheck lib (Returned (lv_ListSecrets lib (Connect w1)) w1)"
    by (simp add: ListSecrets_def run del: deferCheck.simps)
  then have "ListSecrets lib w = Returned (lv_ListSecrets lib (Connect w)) w'"
    using d conn by (simp only:)
  moreover have "w'\<lparr>alive := alive w, events := events w @ [EvLock, EvUnlock]\<rparr> = w1"
    using same al ev by (simp only:)
  ultimately show ?thesis
    unfolding w1_def by blast
qed

text \<open>
  The loop that takes the address of its variable: every element of the result is the one
  address \<open>a\<close>, and what is stored there is the last element of the library's slice.
\<close>

lemma rangeAddr_fst:
  assumes "i + length xs \<le> length out"
  shows "fst (rangeAddr a i xs (out, mem)) =
           take i out @ replicate (length xs) (Some a) @ drop (i + length xs) out"
  using assms
proof (induction xs arbitrary: i out mem)
  case Nil
  then show ?case by simp
next
  case (Cons x xs)
  have len: "Suc i + length xs \<le> length (out[i := Some a])"
    using Cons.prems by simp
  have upd: "take (Suc i) (out[i := Some a]) = take i out @ [Some a]"
    using Cons.prems by (simp add: take_Suc_conv_app_nth)
  have rest: "drop (Suc i + length xs) (out[i := Some a]) = drop (Suc i + length xs) out"
    by (rule drop_update_cancel) simp
  have "fst (rangeAddr a (Suc i) xs (out[i := Some a], mem(a \<mapsto> x))) =
          take (Suc i) (out[i := Some a]) @ replicate (length xs) (Some a) @
          drop (Suc i + length xs) (out[i := Some a])"
    by (rule Cons.IH [OF len])
  then show ?case
    by (simp only: rangeAddr.simps upd rest) simp
qed

lemma rangeAddr_snd:
  "snd (rangeAddr a i xs (out, mem)) = (if xs = [] then mem else mem(a \<mapsto> last xs))"
proof (induction xs arbitrary: i out mem)
  case Nil
  then show ?case by simp
next
  case (Cons x xs)
  show ?case
    by (cases "xs = []") (simp_all add: Cons.IH)
qed

lemma rangeAddr_deref:
  "xs \<noteq> [] \<Longrightarrow>
   deref (rangeAddr a 0 xs (replicate (length xs) None, Map.empty)) =
     replicate (length xs) (Some (last xs))"
  by (simp add: rangeAddr_fst rangeAddr_snd deref_def)

text \<open>
  So on an alive handle \<open>ListAllGuests\<close> returns, for a slice of domains that is not empty, as
  many pointers as there are domains, and all of them lead to the last domain.
\<close>

lemma ListAllGuests_result:
  assumes "\<not> reconnectLock w" and "alive w"
    and "lv_ListAllDomains lib (Connect w)
           ((if inactives then insert CONNECT_LIST_DOMAINS_INACTIVE else id)
              ((if actives then insert CONNECT_LIST_DOMAINS_ACTIVE else id) {})) = (ds, None)"
    and "ds \<noteq> []"
  shows "\<exists>s w'. ListAllGuests lib actives inactives w = Returned (Some s, None) w' \<and>
           deref s = replicate (length ds) (Some (last ds))"
proof -
  define w1 where "w1 = w\<lparr>events := events w @ [EvLock, EvUnlock]\<rparr>"
  define s where "s = rangeAddr 0 0 ds (replicate (length ds) None, Map.empty)"
  have free: "\<not> reconnectLock w1" and conn: "Connect w1 = Connect w"
    using assms(1) by (simp_all add: w1_def)
  have run: "reconnectIfNecessary lib w = Returned None w1"
    using assms(1,2) by (simp add: reconnect_alive w1_def)
  obtain w' where d: "deferCheck lib (Returned (Some s, None :: GoError option) w1) =
                        Returned (Some s, None) w'"
    using deferCheck_keeps_result [OF free, where lib = lib and r = "(Some s, None :: GoError option)"]
    by blast
  have "ListAllGuests lib actives inactives w = deferCheck lib (Returned (Some s, None) w1)"
    using assms(3)
    by (cases actives; cases inactives)
       (simp_all add: ListAllGuests_def run conn s_def del: deferCheck.simps)
  from this d have "ListAllGuests lib actives inactives w = Returned (Some s, None) w'"
    by (rule trans)
  moreover have "deref s = replicate (length ds) (Some (last ds))"
    unfolding s_def using assms(4) by (rule rangeAddr_deref)
  ultimately show ?thesis by blast
qed

text \<open>
  Claim C5: every wrapped operation returns exactly what the call of the library produced.
  On the sample handle the library answers \<open>ListAllDomains\<close> with the two domains 1 and 2 and
  \<open>ListAllSecrets\<close> with the two secrets 1 and 2, without an error. \<open>ListAllGuests\<close> returns
  a slice of two pointers that are the same address, and through both of them the caller
  reads domain 2; \<open>ListAllSecrets\<close> does the same with secret 2. Domain 1 and secret 1 are
  not in what the caller gets.
\<close>

theorem ListAll_returns_last_element_only:
  "lv_ListAllDomains sampleLib (Connect sampleConn)
     {CONNECT_LIST_DOMAINS_ACTIVE, CONNECT_LIST_DOMAINS_INACTIVE} = ([Domain 1, Domain 2], None) \<and>
   (case ListAllGuests sampleLib True True sampleConn of
      Returned (Some s, err) w' \<Rightarrow>
        err = None \<and> fst s = [Some 0, Some 0] \<and> deref s = [Some (Domain 2), Some (Domain 2)]
    | _ \<Rightarrow> False) \<and>
   lv_ListAllSecrets sampleLib (Connect sampleConn) 0 = ([Secret 1, Secret 2], None) \<and>
   (case ListAllSecrets sampleLib 0 sampleConn of
      Returned (Some s, err) w' \<Rightarrow>
        err = None \<and> fst s = [Some 0, Some 0] \<and> deref s = [Some (Secret 2), Some (Secret 2)]
    | _ \<Rightarrow> False)"
  by (simp add: sampleConn_def sampleLib_def okError_def ListAllGuests_def ListAllSecrets_def
      reconnectIfNecessary_def checkConnectionLost_def IsOk_def Lock_def Unlock_def emit_def
      deref_def)


section \<open>The outcome of closing\<close>

text \<open>
  Claim C7: \<open>Close\<close> stops the watchdog, releases the session and returns the result of the
  session's own close. For every handle \<open>Close\<close> ends in a panic and returns nothing: on a
  \<open>nil\<close> channel (the handle as \<open>NewConnection\<close> makes it) at once, with the channel
  untouched; on an open channel in its second round, after the channel was closed in the
  first; on a closed channel at once. No round asks the session to close.
\<close>

theorem Close_always_panics:
  "Close w =
     Panicked (if stop w = NilChan then ''close of nil channel'' else ''close of closed channel'')
       (if stop w = OpenChan then w\<lparr>stop := ClosedChan\<rparr> else w)"
proof (cases "stop w")
  case NilChan
  then show ?thesis by (subst Close.simps) simp
next
  case OpenChan
  have "Close (w\<lparr>stop := ClosedChan\<rparr>) = Panicked ''close of closed channel'' (w\<lparr>stop := ClosedChan\<rparr>)"
    by (subst Close.simps) simp
  with OpenChan show ?thesis by (subst Close.simps) simp
next
  case ClosedChan
  then show ?thesis by (subst Close.simps) simp
qed


section \<open>One tick of the watchdog\<close>

text \<open>
  Claim C8. A tick of the watchdog, started with the mutex free, first runs
  \<open>reconnectIfNecessary\<close>, which returns with some state \<open>w1\<close> (the handle itself, but for
  the two events of the mutex, when the handle was alive). Then: if the session reports that
  it is not alive and gives no error, the tick writes a log record and sets \<open>alive\<close> to false
  under the mutex, whatever the last error of the library is, and the classifier is not
  called; if the session reports not alive with an error, the tick is what
  \<open>checkConnectionLost\<close> does in \<open>w1\<close>; if the session reports alive, the tick ends in \<open>w1\<close>:
  it changes nothing beyond what \<open>reconnectIfNecessary\<close> did, and nothing of the handle
  when the handle was alive.
\<close>

theorem monitorTick_branches:
  assumes "\<not> reconnectLock w"
  shows "\<exists>r w1. reconnectIfNecessary lib w = Returned r w1 \<and>
           (alive w \<longrightarrow> w1 = w\<lparr>events := events w @ [EvLock, EvUnlock]\<rparr>) \<and>
           (lv_IsAlive lib (Connect w1) = (False, None) \<longrightarrow>
              monitorTick lib w =
                Returned ()
                  (w1\<lparr>alive := False,
                      events := events w1 @
                        [EvLogError None None ''Connection to libvirt lost'', EvLock, EvUnlock]\<rparr>)) \<and>
           (\<forall>e. lv_IsAlive lib (Connect w1) = (False, Some e) \<longrightarrow>
              monitorTick lib w = checkConnectionLost lib w1) \<and>
           (fst (lv_IsAlive lib (Connect w1)) \<longrightarrow> monitorTick lib w = Returned () w1)"
proof -
  obtain r w1 where run: "reconnectIfNecessary lib w = Returned r w1" and free: "\<not> reconnectLock w1"
    using reconnect_returns [OF assms, of lib] by blast
  have same: "alive w \<longrightarrow> w1 = w\<lparr>events := events w @ [EvLock, EvUnlock]\<rparr>"
    using run assms by (auto simp: reconnect_alive)
  have silent: "lv_IsAlive lib (Connect w1) = (False, None) \<longrightarrow>
                monitorTick lib w =
                  Returned ()
                    (w1\<lparr>alive := False,
                        events := events w1 @
                          [EvLogError None None ''Connection to libvirt lost'', EvLock, EvUnlock]\<rparr>)"
    using free by (simp add: monitorTick_def run Lock_def Unlock_def emit_def)
  have classified: "\<forall>e. lv_IsAlive lib (Connect w1) = (False, Some e) \<longrightarrow>
                      monitorTick lib w = checkConnectionLost lib w1"
    by (simp add: monitorTick_def run)
  have live: "fst (lv_IsAlive lib (Connect w1)) \<longrightarrow> monitorTick lib w = Returned () w1"
    by (cases "lv_IsAlive lib (Connect w1)") (simp add: monitorTick_def run)
  show ?thesis
    using run same silent classified live by blast
qed

theorem monitorTick_branches_witness:
  "\<not> reconnectLock sampleConn \<and>
   monitorTick (sampleLib\<lparr>lv_IsAlive := (\<lambda>c. (False, None))\<rparr>) sampleConn =
     Returned ()
       (sampleConn\<lparr>alive := False,
          events := [EvLock, EvUnlock,
                     EvLogError None None ''Connection to libvirt lost'', EvLock, EvUnlock]\<rparr>) \<and>
   monitorTick (sampleLib\<lparr>lv_IsAlive := (\<lambda>c. (False, Some (LibvirtError rpcError))),
                          lv_GetLastError := rpcError\<rparr>) sampleConn =
     Returned ()
       (sampleConn\<lparr>alive := False,
          events := [EvLock, EvUnlock, EvLock,
                     EvLogError (Some ERR_RPC) (Some rpcError) ''Connection to libvirt lost.'',
                     EvUnlock]\<rparr>) \<and>
   monitorTick sampleLib sampleConn = Returned () (sampleConn\<lparr>events := [EvLock, EvUnlock]\<rparr>)"
  using monitorTick_branches [of sampleConn "sampleLib\<lparr>lv_IsAlive := (\<lambda>c. (False, None))\<rparr>"]
    monitorTick_branches [of sampleConn
      "sampleLib\<lparr>lv_IsAlive := (\<lambda>c. (False, Some (LibvirtError rpcError))),
                  lv_GetLastError := rpcError\<rparr>"]
    monitorTick_branches [of sampleConn sampleLib]
  by (simp add: sampleConn_def sampleLib_def rpcError_def okError_def monitorTick_def
      reconnectIfNecessary_def checkConnectionLost_def IsOk_def Lock_def Unlock_def emit_def)


section \<open>Registering a callback\<close>

text \<open>
  Claim C9. When \<open>RegisterGuestEventLifecycle\<close> is called on an alive handle, with the mutex
  free, and its argument is not a value of the callback type, the call panics at the type
  assertion: it does not return, so the argument is not refused through the error result.
  The registry is what it was.
\<close>

theorem register_mistyped_panics:
  assumes "\<not> reconnectLock w" and "alive w" and "\<forall>cb. callback \<noteq> CallbackValue cb"
  shows "\<exists>w'. RegisterGuestEventLifecycle lib callback w = Panicked ''interface conversion'' w' \<and>
           callbacks w' = callbacks w \<and>
           (\<forall>r w''. RegisterGuestEventLifecycle lib callback w \<noteq> Returned r w'')"
proof -
  let ?w1 = "w\<lparr>events := events w @ [EvLock, EvUnlock]\<rparr>"
  have "\<not> reconnectLock ?w1" using assms(1) by simp
  then obtain w' where chk: "checkConnectionLost lib ?w1 = Returned () w'"
    and cbs: "callbacks w' = callbacks ?w1"
    using check_returns [of _ lib] by blast
  have "RegisterGuestEventLifecycle lib callback w = Panicked ''interface conversion'' w'"
    using assms by (cases callback) (simp_all add: RegisterGuestEventLifecycle_def reconnect_alive chk)
  with cbs show ?thesis by simp
qed

theorem register_mistyped_panics_witness:
  "\<not> reconnectLock sampleConn \<and> alive sampleConn \<and>
   (\<forall>cb. OtherValue ''func(string)'' \<noteq> CallbackValue cb) \<and>
   RegisterGuestEventLifecycle sampleLib (OtherValue ''func(string)'') sampleConn =
     Panicked ''interface conversion'' (sampleConn\<lparr>events := [EvLock, EvUnlock, EvLock, EvUnlock]\<rparr>)"
  using register_mistyped_panics [of sampleConn "OtherValue ''func(string)''" sampleLib]
  by (simp add: sampleConn_def sampleLib_def okError_def RegisterGuestEventLifecycle_def
      reconnectIfNecessary_def checkConnectionLost_def IsOk_def Lock_def Unlock_def emit_def)



section \<open>Retries and the error of the first connection\<close>

lemma failed_attempt:
  "snd (p :: virConnect option \<times> GoError option) \<noteq> None \<Longrightarrow> \<exists>c0 e0. p = (c0, Some e0)"
  by (cases p) auto

lemma interval_positive: "0 < ConnectionInterval"
  by (simp add: ConnectionInterval_def Second_def)

text \<open>
  After \<open>N\<close> failed attempts and with time left for the next one, a successful attempt ends
  the polling; \<open>j\<close> attempts were made before, and \<open>elapsed\<close> is the time waited so far.
\<close>

lemma pollFrom_success:
  assumes "\<forall>k<N. snd (newConnection (libs (j + k)) u usr pwd) \<noteq> None"
    and "newConnection (libs (j + N)) u usr pwd = (c, None)"
    and "elapsed + int N * interval < timeout" and "0 < interval"
  shows "pollFrom elapsed interval timeout (dialCondition libs u usr pwd) (j, v) =
           (None, j + N + 1, c)"
  using assms
proof (induction N arbitrary: elapsed j v)
  case 0
  then show ?case
    by (subst pollFrom.simps) (simp add: dialCondition_def)
next
  case (Suc N)
  have "snd (newConnection (libs j) u usr pwd) \<noteq> None"
    using Suc.prems(1) [rule_format, of 0] by simp
  then obtain c0 e0 where first: "newConnection (libs j) u usr pwd = (c0, Some e0)"
    using failed_attempt by blast
  have cond: "dialCondition libs u usr pwd (j, v) = ((False, None), (Suc j, c0))"
    by (simp add: dialCondition_def first)
  have step: "elapsed + interval < timeout"
  proof -
    have "0 \<le> int N * interval" using Suc.prems(4) by simp
    moreover have "elapsed + (int N * interval + interval) < timeout"
      using Suc.prems(3) by (simp add: algebra_simps)
    ultimately show ?thesis by linarith
  qed
  have rest: "pollFrom (elapsed + interval) interval timeout (dialCondition libs u usr pwd) (Suc j, c0)
                = (None, Suc j + N + 1, c)"
  proof (rule Suc.IH)
    show "\<forall>k<N. snd (newConnection (libs (Suc j + k)) u usr pwd) \<noteq> None"
      using Suc.prems(1) by (metis Suc_less_eq add_Suc_shift)
    show "newConnection (libs (Suc j + N)) u usr pwd = (c, None)"
      using Suc.prems(2) by simp
    show "elapsed + interval + int N * interval < timeout"
      using Suc.prems(3) by (simp add: algebra_simps)
    show "0 < interval" by (rule Suc.prems(4))
  qed
  show ?case
    by (subst pollFrom.simps) (simp add: cond step Suc.prems(4) rest)
qed

text \<open>
  The closure never hands an error to the polling, so the polling can only end with a
  success or with its own timeout error.
\<close>

lemma pollFrom_error:
  "fst (pollFrom elapsed interval timeout (dialCondition libs u usr pwd) s) = Some e \<Longrightarrow>
   e = ErrWaitTimeout"
proof (induction elapsed interval timeout "dialCondition libs u usr pwd" s rule: pollFrom.induct)
  case (1 elapsed interval timeout s)
  obtain k v where s: "s = (k, v)" by (cases s)
  obtain c0 r where dial: "newConnection (libs k) u usr pwd = (c0, r)"
    by (cases "newConnection (libs k) u usr pwd")
  show ?case
  proof (cases r)
    case None
    then have "dialCondition libs u usr pwd s = ((True, None), (Suc k, c0))"
      by (simp add: dialCondition_def s dial)
    then have "fst (pollFrom elapsed interval timeout (dialCondition libs u usr pwd) s) = None"
      by (subst pollFrom.simps) simp
    with "1.prems" show ?thesis by simp
  next
    case (Some e0)
    then have cond: "dialCondition libs u usr pwd s = ((False, None), (Suc k, c0))"
      by (simp add: dialCondition_def s dial)
    show ?thesis
    proof (cases "0 < interval \<and> elapsed + interval < timeout")
      case True
      have "pollFrom elapsed interval timeout (dialCondition libs u usr pwd) s =
              pollFrom (elapsed + interval) interval timeout (dialCondition libs u usr pwd) (Suc k, c0)"
        using True by (subst pollFrom.simps) (simp add: cond)
      with "1.prems" "1.hyps" [OF cond [symmetric] refl refl _ True] show ?thesis
        by simp
    next
      case False
      have "pollFrom elapsed interval timeout (dialCondition libs u usr pwd) s =
              (Some ErrWaitTimeout, Suc k, c0)"
        using False by (subst pollFrom.simps) (auto simp add: cond)
      with "1.prems" show ?thesis by simp
    qed
  qed
qed

text \<open>
  Claim C6, as the spec states it: on timeout exhaustion the dialer fails with a
  connectivity error that wraps the failure of the last attempt. When the daemon cannot be
  reached, every attempt fails with the library's rpc error; \<open>NewConnection\<close> returns an
  error that wraps the timeout error of the polling and not the rpc error.
\<close>

theorem NewConnection_wraps_last_failure_counterexample:
  "snd (newConnection downLib ''qemu:///system'' ''kubevirt'' ''secret'') =
     Some (LibvirtError rpcError) \<and>
   NewConnection (\<lambda>k. downLib) ''qemu:///system'' ''kubevirt'' ''secret'' =
     (None, Some (Errorf ''cannot connect to libvirt daemon: '' ErrWaitTimeout)) \<and>
   \<not> wraps (Errorf ''cannot connect to libvirt daemon: '' ErrWaitTimeout) (LibvirtError rpcError)"
  by (simp add: NewConnection_def connectPolling_def PollImmediate_def pollFrom.simps
      dialCondition_def newConnection_def downLib_def sampleLib_def ConnectionInterval_def
      ConnectionTimeout_def Second_def)

text \<open>
  Claim C6, amended. The dialer retries at the fixed interval of 10 seconds within the
  timeout of 15 seconds: when the first \<open>N\<close> attempts fail, the next one succeeds with the
  session \<open>c\<close>, and \<open>N\<close> times the interval is less than the timeout, \<open>NewConnection\<close> has
  made \<open>N + 1\<close> attempts and returns a handle on \<open>c\<close> that is alive, with the mutex free and
  an empty registry. When every attempt that the timeout allows fails, \<open>NewConnection\<close>
  returns no handle and a connectivity error that wraps the timeout error of the polling;
  the failures of the attempts are dropped by the closure and are not in that error. Whenever
  \<open>NewConnection\<close> fails, this is its error.
\<close>

theorem NewConnection_retries_then_times_out:
  "((\<forall>k<N. snd (newConnection (libs k) u usr pwd) \<noteq> None) \<and>
    newConnection (libs N) u usr pwd = (c, None) \<and>
    int N * ConnectionInterval < ConnectionTimeout \<longrightarrow>
      connectPolling libs u usr pwd = (None, N + 1, c) \<and>
      NewConnection libs u usr pwd =
        (Some \<lparr>Connect = c, user = usr, pass = pwd, uri = u, alive = True, stop = NilChan,
               reconnectLock = False, callbacks = [], events = []\<rparr>, None)) \<and>
   ((\<forall>k. int k * ConnectionInterval < ConnectionTimeout \<longrightarrow>
          snd (newConnection (libs' k) u usr pwd) \<noteq> None) \<longrightarrow>
      fst (snd (connectPolling libs' u usr pwd)) = 2 \<and>
      NewConnection libs' u usr pwd =
        (None, Some (Errorf ''cannot connect to libvirt daemon: '' ErrWaitTimeout))) \<and>
   (\<forall>e. snd (NewConnection libs'' u usr pwd) = Some e \<longrightarrow>
      e = Errorf ''cannot connect to libvirt daemon: '' ErrWaitTimeout \<and>
      (\<forall>x. wraps e (LibvirtError x) = False))"
proof (intro conjI impI allI)
  assume h: "(\<forall>k<N. snd (newConnection (libs k) u usr pwd) \<noteq> None) \<and>
             newConnection (libs N) u usr pwd = (c, None) \<and>
             int N * ConnectionInterval < ConnectionTimeout"
  have poll: "pollFrom 0 ConnectionInterval ConnectionTimeout (dialCondition libs u usr pwd) (0, None) =
                (None, 0 + N + 1, c)"
    by (rule pollFrom_success) (use h interval_positive in simp_all)
  then show "connectPolling libs u usr pwd = (None, N + 1, c)"
    by (simp add: connectPolling_def PollImmediate_def)
  then show "NewConnection libs u usr pwd =
        (Some \<lparr>Connect = c, user = usr, pass = pwd, uri = u, alive = True, stop = NilChan,
               reconnectLock = False, callbacks = [], events = []\<rparr>, None)"
    by (simp add: NewConnection_def)
next
  assume h: "\<forall>k. int k * ConnectionInterval < ConnectionTimeout \<longrightarrow>
               snd (newConnection (libs' k) u usr pwd) \<noteq> None"
  have "snd (newConnection (libs' 0) u usr pwd) \<noteq> None"
    using h [rule_format, of 0] by (simp add: ConnectionTimeout_def Second_def)
  then obtain c0 e0 where a0: "newConnection (libs' 0) u usr pwd = (c0, Some e0)"
    using failed_attempt by blast
  have "snd (newConnection (libs' (Suc 0)) u usr pwd) \<noteq> None"
    using h [rule_format, of "Suc 0"]
    by (simp add: ConnectionTimeout_def ConnectionInterval_def Second_def)
  then obtain c1 e1 where a1: "newConnection (libs' (Suc 0)) u usr pwd = (c1, Some e1)"
    using failed_attempt by blast
  have poll: "connectPolling libs' u usr pwd = (Some ErrWaitTimeout, 2, c1)"
    by (simp add: connectPolling_def PollImmediate_def pollFrom.simps dialCondition_def a0 a1
        ConnectionInterval_def ConnectionTimeout_def Second_def)
  then show "fst (snd (connectPolling libs' u usr pwd)) = 2" by simp
  from poll show "NewConnection libs' u usr pwd =
        (None, Some (Errorf ''cannot connect to libvirt daemon: '' ErrWaitTimeout))"
    by (simp add: NewConnection_def)
next
  fix e
  assume failed: "snd (NewConnection libs'' u usr pwd) = Some e"
  obtain r k v where poll: "connectPolling libs'' u usr pwd = (r, k, v)"
    by (cases "connectPolling libs'' u usr pwd")
  show "e = Errorf ''cannot connect to libvirt daemon: '' ErrWaitTimeout"
  proof (cases r)
    case None
    with poll failed show ?thesis by (simp add: NewConnection_def)
  next
    case (Some e')
    have "fst (pollFrom 0 ConnectionInterval ConnectionTimeout (dialCondition libs'' u usr pwd) (0, None))
            = Some e'"
      using poll Some by (simp add: connectPolling_def PollImmediate_def)
    then have "e' = ErrWaitTimeout" by (rule pollFrom_error)
    with poll Some failed show ?thesis by (simp add: NewConnection_def)
  qed
  then show "\<And>x. wraps e (LibvirtError x) = False" by simp
qed

theorem NewConnection_retries_then_times_out_witness:
  "snd (newConnection downLib ''qemu:///system'' ''kubevirt'' ''secret'') \<noteq> None \<and>
   newConnection sampleLib ''qemu:///system'' ''kubevirt'' ''secret'' = (Some (VirConnect 2), None) \<and>
   int 1 * ConnectionInterval < ConnectionTimeout \<and>
   connectPolling (\<lambda>k. if k < 1 then downLib else sampleLib)
     ''qemu:///system'' ''kubevirt'' ''secret'' = (None, 2, Some (VirConnect 2)) \<and>
   NewConnection (\<lambda>k. if k < 1 then downLib else sampleLib)
     ''qemu:///system'' ''kubevirt'' ''secret'' =
     (Some \<lparr>Connect = Some (VirConnect 2), user = ''kubevirt'', pass = ''secret'',
            uri = ''qemu:///system'', alive = True, stop = NilChan, reconnectLock = False,
            callbacks = [], events = []\<rparr>, None) \<and>
   fst (snd (connectPolling (\<lambda>k. downLib) ''qemu:///system'' ''kubevirt'' ''secret'')) = 2 \<and>
   NewConnection (\<lambda>k. downLib) ''qemu:///system'' ''kubevirt'' ''secret'' =
     (None, Some (Errorf ''cannot connect to libvirt daemon: '' ErrWaitTimeout)) \<and>
   snd (NewConnection (\<lambda>k. downLib) ''qemu:///system'' ''kubevirt'' ''secret'') =
     Some (Errorf ''cannot connect to libvirt daemon: '' ErrWaitTimeout) \<and>
   \<not> wraps (Errorf ''cannot connect to libvirt daemon: '' ErrWaitTimeout) (LibvirtError rpcError)"
proof -
  let ?libs = "\<lambda>k::nat. if k < 1 then downLib else sampleLib"
  let ?down = "\<lambda>k::nat. downLib"
  note facts = NewConnection_retries_then_times_out
                 [of 1 ?libs "''qemu:///system''" "''kubevirt''" "''secret''"
                     "Some (VirConnect 2)" ?down ?down]
  have a0: "snd (newConnection downLib ''qemu:///system'' ''kubevirt'' ''secret'') \<noteq> None"
    by (simp add: newConnection_def downLib_def)
  have a1: "newConnection sampleLib ''qemu:///system'' ''kubevirt'' ''secret'' =
              (Some (VirConnect 2), None)"
    by (simp add: newConnection_def sampleLib_def)
  have budget: "int 1 * ConnectionInterval < ConnectionTimeout"
    by (simp add: ConnectionInterval_def ConnectionTimeout_def Second_def)
  have h1: "(\<forall>k<1. snd (newConnection (?libs k) ''qemu:///system'' ''kubevirt'' ''secret'') \<noteq> None) \<and>
            newConnection (?libs 1) ''qemu:///system'' ''kubevirt'' ''secret'' =
              (Some (VirConnect 2), None) \<and>
            int 1 * ConnectionInterval < ConnectionTimeout"
    using a0 a1 budget by simp
  have h2: "\<forall>k. int k * ConnectionInterval < ConnectionTimeout \<longrightarrow>
              snd (newConnection (?down k) ''qemu:///system'' ''kubevirt'' ''secret'') \<noteq> None"
    using a0 by simp
  note r1 = facts [THEN conjunct1, THEN mp, OF h1]
  note r2 = facts [THEN conjunct2, THEN conjunct1, THEN mp, OF h2]
  have p1: "connectPolling ?libs ''qemu:///system'' ''kubevirt'' ''secret'' =
              (None, 2, Some (VirConnect 2))"
    using r1 [THEN conjunct1] by simp
  have h3: "snd (NewConnection ?down ''qemu:///system'' ''kubevirt'' ''secret'') =
              Some (Errorf ''cannot connect to libvirt daemon: '' ErrWaitTimeout)"
    by (simp add: r2 [THEN conjunct2])
  note r3 = facts [THEN conjunct2, THEN conjunct2, THEN spec, THEN mp, OF h3]
  have p3: "\<not> wraps (Errorf ''cannot connect to libvirt daemon: '' ErrWaitTimeout)
                  (LibvirtError rpcError)"
    using r3 [THEN conjunct2, THEN spec, of rpcError] by simp
  show ?thesis
    by (intro conjI a0 a1 budget p1 r1 [THEN conjunct2] r2 [THEN conjunct1] r2 [THEN conjunct2]
        h3 p3)
qed

end
